theory Spec2Isabelle
  imports Complex_Main "HOL-Library.Log_Nat"
begin

section \<open>Data model\<close>

text \<open>
  Instants are \<open>datetime\<close> values, read as microseconds since the epoch (the resolution
  of Python's \<open>datetime\<close>). The rates of a space are the decimal numbers of the
  catalogue. The amounts the tool computes are Python floats: a float is represented by
  the rational number it denotes, and each float operation of the source rounds its
  exact result to the nearest double (\<open>fl\<close> below). The \<open>total_amount\<close> of a booking
  row is the float the tool passed to the insert.
\<close>

type_synonym instant = int

record space =
  sp_id :: string
  sp_name :: string
  sp_type :: string
  sp_location :: string
  hourly_rate :: "rat option"
  daily_rate :: "rat option"
  monthly_rate :: "rat option"
  is_active :: bool

record booking =
  b_id :: string
  b_user_id :: string
  b_space_id :: string
  start_time :: instant
  end_time :: instant
  duration_type :: string
  status :: string
  total_amount :: rat
  attendees_count :: int
  b_notes :: "string option"
  special_requirements :: "string option"

record payment =
  p_user_id :: string
  p_booking_id :: string
  amount :: rat
  currency :: string
  payment_status :: string
  payment_provider :: string
  transaction_id :: "string option"
  paid_at :: "instant option"
  receipt_url :: "string option"

text \<open>Calls sent to the payment provider, in the order they are issued.\<close>

datatype stripe_call =
    PriceCreate string int string "(string \<times> string) list"
  | PaymentLinkCreate string "(string \<times> string) list" string
  | SessionList string
  | PaymentIntentRetrieve string
  | PaymentIntentSearch string

text \<open>
  The world the handlers act on: the three tables, the log of provider calls, and the
  confirmation-email tasks handed to the event loop by \<open>asyncio.create_task\<close>
  (booking id and fallback address).
\<close>

record world =
  spaces :: "space list"
  bookings :: "booking list"
  payments :: "payment list"
  stripe_log :: "stripe_call list"
  email_tasks :: "(string \<times> string option) list"

section \<open>Persistence service (services/supabase.py)\<close>

datatype exn = TimeoutError string | Exception string

text \<open>
  \<open>_execute\<close> runs the query in a worker thread and awaits it for at most
  \<open>DB_TIMEOUT_SECONDS\<close>: it returns the response, raises \<open>TimeoutError\<close>, or
  re-raises the client's exception. The final outcome of the call is a parameter of
  every operation below. On a timeout only the await is abandoned, the thread goes on:
  \<open>DbTimeout landed\<close> says whether the statement still took effect. A statement the
  database rejected (\<open>DbError\<close>) took no effect.
\<close>

datatype db_outcome = DbOk | DbTimeout bool | DbError string

fun execute :: "db_outcome \<Rightarrow> 'a \<Rightarrow> exn + 'a" where
  "execute DbOk r = Inr r"
| "execute (DbTimeout landed) r = Inl (TimeoutError ''Supabase request timed out'')"
| "execute (DbError m) r = Inl (Exception m)"

fun lands :: "db_outcome \<Rightarrow> bool" where
  "lands DbOk = True"
| "lands (DbTimeout landed) = landed"
| "lands (DbError m) = False"

text \<open>
  A writing statement: the world after the call is \<open>w'\<close> when the statement took
  effect and \<open>w\<close> otherwise; the caller gets the rows or the exception.
\<close>

definition db_write :: "db_outcome \<Rightarrow> world \<Rightarrow> world \<Rightarrow> 'a \<Rightarrow> world \<times> (exn + 'a)" where
  "db_write out w w' rows = (if lands out then w' else w, execute out rows)"

definition first_row :: "'a list \<Rightarrow> 'a option" where
  "first_row rows = (case rows of [] \<Rightarrow> None | r # _ \<Rightarrow> Some r)"

definition get_space_by_id :: "db_outcome \<Rightarrow> world \<Rightarrow> string \<Rightarrow> exn + space option" where
  "get_space_by_id out w space_id =
     execute out (first_row (filter (\<lambda>s. sp_id s = space_id) (spaces w)))"

definition overlapping :: "world \<Rightarrow> string \<Rightarrow> instant \<Rightarrow> instant \<Rightarrow> booking list" where
  "overlapping w space_id start_dt end_dt =
     filter (\<lambda>b. b_space_id b = space_id \<and> status b \<noteq> ''cancelled''
                 \<and> start_time b < end_dt \<and> start_dt < end_time b) (bookings w)"

definition check_space_availability ::
  "db_outcome \<Rightarrow> world \<Rightarrow> string \<Rightarrow> instant \<Rightarrow> instant \<Rightarrow> exn + bool" where
  "check_space_availability out w space_id start_dt end_dt =
     execute out (length (overlapping w space_id start_dt end_dt) = 0)"

definition supabase_create_booking ::
  "db_outcome \<Rightarrow> world \<Rightarrow> string \<Rightarrow> string \<Rightarrow> string \<Rightarrow> instant \<Rightarrow> instant \<Rightarrow> string
     \<Rightarrow> rat \<Rightarrow> int \<Rightarrow> string option \<Rightarrow> string option \<Rightarrow> world \<times> (exn + booking option)" where
  "supabase_create_booking out w new_id user_id space_id start_dt end_dt dtype total_amt attendees nts special =
     (let booking_data = \<lparr> b_id = new_id, b_user_id = user_id, b_space_id = space_id,
                             start_time = start_dt, end_time = end_dt, duration_type = dtype,
                             status = ''pending'', total_amount = total_amt,
                             attendees_count = attendees, b_notes = nts,
                             special_requirements = special \<rparr>
      in db_write out w (w\<lparr>bookings := bookings w @ [booking_data]\<rparr>)
           (first_row [booking_data]))"

definition set_status :: "string \<Rightarrow> string \<Rightarrow> booking \<Rightarrow> booking" where
  "set_status booking_id new_status b =
     (if b_id b = booking_id then b\<lparr>status := new_status\<rparr> else b)"

definition update_booking_status ::
  "db_outcome \<Rightarrow> world \<Rightarrow> string \<Rightarrow> string \<Rightarrow> world \<times> (exn + booking option)" where
  "update_booking_status out w booking_id new_status =
     db_write out w
       (w\<lparr>bookings := map (set_status booking_id new_status) (bookings w)\<rparr>)
       (first_row (map (set_status booking_id new_status)
                     (filter (\<lambda>b. b_id b = booking_id) (bookings w))))"


definition supabase_cancel_booking ::
  "db_outcome \<Rightarrow> world \<Rightarrow> string \<Rightarrow> string \<Rightarrow> world \<times> (exn + bool)" where
  "supabase_cancel_booking out w booking_id user_id =
     db_write out w
       (w\<lparr>bookings := map (\<lambda>b. if b_id b = booking_id \<and> b_user_id b = user_id
                                   then b\<lparr>status := ''cancelled''\<rparr> else b) (bookings w)\<rparr>)
       (0 < length (filter (\<lambda>b. b_id b = booking_id \<and> b_user_id b = user_id) (bookings w)))"

definition create_payment_record ::
  "db_outcome \<Rightarrow> world \<Rightarrow> string \<Rightarrow> string \<Rightarrow> rat \<Rightarrow> string \<Rightarrow> string \<Rightarrow> string option
     \<Rightarrow> world \<times> (exn + payment option)" where
  "create_payment_record out w user_id booking_id amt pstatus provider txn =
     (let payment_data = \<lparr> p_user_id = user_id, p_booking_id = booking_id, amount = amt,
                             currency = ''MYR'', payment_status = pstatus,
                             payment_provider = provider, transaction_id = txn,
                             paid_at = None, receipt_url = None \<rparr>
      in db_write out w (w\<lparr>payments := payments w @ [payment_data]\<rparr>)
           (first_row [payment_data]))"

text \<open>Python truthiness of an optional string: \<open>None\<close> and \<open>""\<close> are falsy.\<close>

fun truthy_str :: "string option \<Rightarrow> bool" where
  "truthy_str None = False"
| "truthy_str (Some s) = (s \<noteq> [])"

definition update_data :: "string \<Rightarrow> string option \<Rightarrow> instant option \<Rightarrow> string option
     \<Rightarrow> payment \<Rightarrow> payment" where
  "update_data pstatus txn paid receipt p =
     (let p1 = p\<lparr>payment_status := pstatus\<rparr>;
          p2 = (if truthy_str txn then p1\<lparr>transaction_id := txn\<rparr> else p1);
          p3 = (if paid \<noteq> None then p2\<lparr>paid_at := paid\<rparr> else p2)
      in if truthy_str receipt then p3\<lparr>receipt_url := receipt\<rparr> else p3)"

definition update_payment_status ::
  "db_outcome \<Rightarrow> world \<Rightarrow> string \<Rightarrow> string \<Rightarrow> string option \<Rightarrow> instant option \<Rightarrow> string option
     \<Rightarrow> world \<times> (exn + payment option)" where
  "update_payment_status out w booking_id pstatus txn paid receipt =
     db_write out w
       (w\<lparr>payments := map (\<lambda>p. if p_booking_id p = booking_id
                                   then update_data pstatus txn paid receipt p else p)
                            (payments w)\<rparr>)
       (first_row (map (update_data pstatus txn paid receipt)
                     (filter (\<lambda>p. p_booking_id p = booking_id) (payments w))))"


section \<open>Environment\<close>

text \<open>
  What the handlers read from outside the tables. For the booking tool: the clock, the
  two parsers it calls (\<open>UUID(...)\<close> and \<open>parse_datetime\<close>, whose \<open>ValueError\<close>
  message is the left injection), the identifier the database gives the new row, the
  settings, the outcome of the database call at each call site, and the provider's
  answers to \<open>Price.create\<close> and \<open>PaymentLink.create\<close>; \<open>mint_seconds\<close> is the time
  the worker thread needs for \<open>_create_payment_link_sync\<close>. For the webhook and the
  reconciliation endpoint: whether the provider library could be imported
  (\<open>STRIPE_AVAILABLE\<close>), the webhook secret, the signature check, and the provider's
  answers to \<open>checkout.Session.list\<close>, \<open>PaymentIntent.retrieve\<close> and
  \<open>PaymentIntent.search\<close>. No handler calls the database twice at one call site, so
  one outcome per site covers every run.
\<close>

datatype db_site =
    GetSpaceById | CheckAvailability | InsertBooking | InsertPayment
  | UpdateBookingStatus | UpdatePaymentStatus | GetBookingById | GetBookingByIdAfter
  | GetPaymentByBooking

record price =
  price_id :: string
  price_product :: string

record payment_link =
  link_id :: string
  link_url :: string

datatype 'a provider = Answers 'a | Raises string

text \<open>
  Provider objects, with the fields the handlers read. A field that may be missing is an
  option; \<open>charges_data\<close> is \<open>charges.data\<close> as the list of billing e-mail addresses
  of the charges, \<open>None\<close> when the intent has no \<open>charges\<close> attribute.
\<close>

record payment_intent =
  pi_id :: string
  pi_status :: string
  pi_metadata :: "string \<rightharpoonup> string"
  receipt_email :: "string option"
  charges_data :: "string option list option"

record checkout_session =
  cs_payment_status :: "string option"
  cs_payment_intent :: "string option"

text \<open>
  \<open>event["data"]["object"]\<close> of a webhook event. \<open>last_payment_error\<close> is \<open>None\<close>
  when the key is missing and otherwise carries the optional \<open>message\<close>.
  \<open>amount_total\<close> is an integer when present; the handler divides it by 100 and does
  not use the quotient.
\<close>

record event_object =
  metadata :: "string \<rightharpoonup> string"
  customer_email :: "string option"
  payment_intent_ref :: "string option"
  amount_total :: "int option"
  last_payment_error :: "string option option"
  obj_id :: "string option"
  email :: "string option"

record event =
  ev_type :: string
  ev_object :: event_object

text \<open>
  \<open>stripe.Webhook.construct_event(payload, signature, secret)\<close>: the parsed event, a
  \<open>ValueError\<close> for a payload that does not parse, or a
  \<open>SignatureVerificationError\<close>.
\<close>

datatype verify_result =
    Verified event
  | ValueError string
  | SignatureVerificationError string

record env =
  now :: instant
  uuid_ok :: "string \<Rightarrow> bool"
  parse_datetime :: "string \<Rightarrow> string \<Rightarrow> string + instant"
  new_booking_id :: string
  stripe_secret_key :: string
  frontend_url :: string
  db :: "db_site \<Rightarrow> db_outcome"
  price_create :: "price provider"
  link_create :: "payment_link provider"
  mint_seconds :: rat
  stripe_available :: bool
  stripe_webhook_secret :: string
  construct_event :: "string \<Rightarrow> string \<Rightarrow> string \<Rightarrow> verify_result"
  session_list :: "string \<Rightarrow> checkout_session list provider"
  pi_retrieve :: "string \<Rightarrow> payment_intent provider"
  pi_search :: "string \<Rightarrow> payment_intent list provider"

section \<open>Booking tool (agent/tools/booking.py)\<close>

record payment_metadata =
  payment_link_id :: string
  md_price_id :: string
  product_id :: string
  md_amount_cents :: int
  md_currency :: string

text \<open>
  The JSON the tool returns: either an object with an \<open>error\<close> key, or the success
  payload. The formatted date strings and the space's display fields of the payload are
  left out.
\<close>

record response_payload =
  r_success :: bool
  r_booking_id :: string
  r_duration_hours :: rat
  r_total_amount :: rat
  r_currency :: string
  r_status :: string
  r_message :: string
  r_next_step :: string
  r_payment_link :: "string option"
  r_payment_provider :: "string option"
  r_payment_details :: "payment_metadata option"
  r_payment_error :: "string option"

datatype tool_result = Error string | Success response_payload

text \<open>The tool returned the success payload.\<close>

fun is_success :: "exn + tool_result \<Rightarrow> bool" where
  "is_success (Inr (Success p)) = True"
| "is_success r = False"

fun exn_str :: "exn \<Rightarrow> string" where
  "exn_str (TimeoutError m) = m"
| "exn_str (Exception m) = m"

text \<open>
  Python 3's \<open>round(x)\<close> with one argument: the nearest integer, a tie going to the even
  neighbour.
\<close>

definition py_round :: "rat \<Rightarrow> int" where
  "py_round x =
     (let f = \<lfloor>x\<rfloor>; d = x - of_int f
      in if d < 1 / 2 then f
         else if 1 / 2 < d then f + 1
         else if even f then f else f + 1)"

text \<open>
  Double-precision arithmetic. For \<open>x \<noteq> 0\<close>, \<open>float_exponent x\<close> is the exponent \<open>e\<close>
  with \<open>2 powi e \<le> \<bar>x\<bar>\<close> and \<open>\<bar>x\<bar> < 2 powi (e + 1)\<close>, found from the bit lengths of
  numerator and denominator. \<open>fl x\<close> is the double nearest to \<open>x\<close>: 53 significant
  bits, a tie going to the even significand, and the spacing of the subnormal numbers
  below \<open>2 powi (- 1022)\<close>. Overflow to infinity is left out. Each of \<open>float(r)\<close>,
  \<open>a * b\<close> and \<open>a / b\<close> on floats is \<open>fl\<close> of the exact result, as is the true
  division of two integers.
\<close>

definition float_exponent :: "rat \<Rightarrow> int" where
  "float_exponent x =
     (case quotient_of \<bar>x\<bar> of (p, q) \<Rightarrow>
        (let k = bitlen p - bitlen q
         in if \<bar>x\<bar> < 2 powi k then k - 1 else k))"

definition fl :: "rat \<Rightarrow> rat" where
  "fl x = (if x = 0 then 0
           else (let u = 2 powi (max (float_exponent x) (- 1022) - 52)
                 in of_int (py_round (x / u)) * u))"

text \<open>
  \<open>timedelta.total_seconds()\<close> divides the microseconds by \<open>10**6\<close>;
  \<open>duration_hours\<close> is \<open>(end - start).total_seconds() / 3600\<close>.
\<close>

definition total_seconds :: "int \<Rightarrow> rat" where
  "total_seconds delta = fl (of_int delta / 1000000)"

definition duration_hours :: "instant \<Rightarrow> instant \<Rightarrow> rat" where
  "duration_hours start_dt end_dt = fl (total_seconds (end_dt - start_dt) / 3600)"

text \<open>
  \<open>space.get("hourly_rate")\<close> used as a condition: a missing rate, a NULL rate and a
  rate of zero are all falsy. \<open>usable\<close> returns the rate when the condition holds.
\<close>

fun usable :: "rat option \<Rightarrow> rat option" where
  "usable None = None"
| "usable (Some r) = (if r = 0 then None else Some r)"

text \<open>
  The pricing chain of \<open>create_booking\<close>: \<open>float(rate) * duration_hours\<close> in the
  hourly branches, \<open>float(rate)\<close> in the flat ones; \<open>None\<close> is the branch that returns
  "Could not determine pricing for this space and duration type".
\<close>

definition calculate_total :: "space \<Rightarrow> string \<Rightarrow> rat \<Rightarrow> rat option" where
  "calculate_total sp dtype hours =
     (case (if dtype = ''hourly'' then usable (hourly_rate sp) else None) of
        Some h \<Rightarrow> Some (fl (fl h * hours))
      | None \<Rightarrow>
     (case (if dtype = ''daily'' then usable (daily_rate sp) else None) of
        Some d \<Rightarrow> Some (fl d)
      | None \<Rightarrow>
     (case (if dtype = ''monthly'' then usable (monthly_rate sp) else None) of
        Some m \<Rightarrow> Some (fl m)
      | None \<Rightarrow>
     (case usable (hourly_rate sp) of
        Some h \<Rightarrow> Some (fl (fl h * hours))
      | None \<Rightarrow>
     (case usable (daily_rate sp) of
        Some d \<Rightarrow> Some (fl d)
      | None \<Rightarrow> None)))))"

text \<open>\<open>int(round(total_amount * 100))\<close>, the product being a float product.\<close>

definition amount_cents :: "rat \<Rightarrow> int" where
  "amount_cents total_amt = py_round (fl (total_amt * 100))"

definition log_call :: "stripe_call \<Rightarrow> world \<Rightarrow> world" where
  "log_call c w = w\<lparr>stripe_log := stripe_log w @ [c]\<rparr>"

definition create_payment_link_sync ::
  "env \<Rightarrow> world \<Rightarrow> booking \<Rightarrow> space \<Rightarrow> string \<Rightarrow> string \<Rightarrow> rat
     \<Rightarrow> world \<times> (exn + price \<times> payment_link)" where
  "create_payment_link_sync e w bk sp user_id space_id total_amt =
     (let w1 = log_call (PriceCreate ''myr'' (amount_cents total_amt) (sp_name sp @ '' booking'')
                           [(''space_id'', space_id), (''booking_id'', b_id bk)]) w
      in case price_create e of
           Raises m \<Rightarrow> (w1, Inl (Exception m))
         | Answers pr \<Rightarrow>
             (let w2 = log_call (PaymentLinkCreate (price_id pr)
                                   [(''booking_id'', b_id bk), (''user_id'', user_id),
                                    (''space_id'', space_id)]
                                   (frontend_url e @ ''/?payment_status=success&booking_id=''
                                      @ b_id bk)) w1
              in case link_create e of
                   Raises m \<Rightarrow> (w2, Inl (Exception m))
                 | Answers lk \<Rightarrow> (w2, Inr (pr, lk))))"

definition payment_link_timeout :: rat where
  "payment_link_timeout = 12"

text \<open>\<open>asyncio.wait_for(asyncio.to_thread(_create_payment_link_sync), timeout=12)\<close>\<close>

definition run_with_timeout ::
  "env \<Rightarrow> world \<Rightarrow> booking \<Rightarrow> space \<Rightarrow> string \<Rightarrow> string \<Rightarrow> rat
     \<Rightarrow> world \<times> (exn + price \<times> payment_link)" where
  "run_with_timeout e w bk sp user_id space_id total_amt =
     (case create_payment_link_sync e w bk sp user_id space_id total_amt of
        (w1, r) \<Rightarrow>
          if payment_link_timeout < mint_seconds e then (w1, Inl (TimeoutError []))
          else (w1, r))"

text \<open>
  The block under \<open>if settings.STRIPE_SECRET_KEY\<close>: it yields the world and the three
  variables \<open>payment_link\<close>, \<open>payment_error\<close>, \<open>payment_metadata\<close>.
\<close>

definition request_payment ::
  "env \<Rightarrow> world \<Rightarrow> booking \<Rightarrow> space \<Rightarrow> string \<Rightarrow> string \<Rightarrow> rat
     \<Rightarrow> world \<times> string option \<times> string option \<times> payment_metadata option" where
  "request_payment e w bk sp user_id space_id total_amt =
     (if stripe_secret_key e = [] then (w, None, None, None)
      else case run_with_timeout e w bk sp user_id space_id total_amt of
        (w1, Inl exc) \<Rightarrow>
          (w1, None, Some (''Failed to create payment link: '' @ exn_str exc), None)
      | (w1, Inr (pr, lk)) \<Rightarrow>
          (let md = \<lparr> payment_link_id = link_id lk, md_price_id = price_id pr,
                       product_id = price_product pr,
                       md_amount_cents = amount_cents total_amt, md_currency = ''myr'' \<rparr>;
               w2 = (case create_payment_record (db e InsertPayment) w1 user_id (b_id bk)
                            total_amt ''pending'' ''stripe'' (Some (link_id lk)) of
                       (w', Inl exc) \<Rightarrow> w'
                     | (w', Inr rec) \<Rightarrow> w')
           in (w2, Some (link_url lk), None, Some md)))"

definition build_response ::
  "booking \<Rightarrow> rat \<Rightarrow> rat \<Rightarrow> string option \<Rightarrow> string option \<Rightarrow> payment_metadata option
     \<Rightarrow> response_payload" where
  "build_response bk hours total_amt plink perror pmeta =
     \<lparr> r_success = True, r_booking_id = b_id bk, r_duration_hours = hours,
       r_total_amount = total_amt, r_currency = ''MYR'', r_status = ''pending'',
       r_message =
         (if truthy_str perror
          then ''Booking created successfully, but payment link could not be generated automatically. Please contact support or try again.''
          else ''Booking created successfully. Please complete payment to confirm.''),
       r_next_step = ''payment_required'',
       r_payment_link = plink,
       r_payment_provider = (if truthy_str plink then Some ''stripe'' else None),
       r_payment_details = pmeta,
       r_payment_error = (if truthy_str perror then perror else None) \<rparr>"

definition create_booking ::
  "env \<Rightarrow> world \<Rightarrow> string \<Rightarrow> string \<Rightarrow> string \<Rightarrow> string \<Rightarrow> string \<Rightarrow> string \<Rightarrow> int
     \<Rightarrow> string option \<Rightarrow> world \<times> (exn + tool_result)" where
  "create_booking e w user_id space_id date start_str end_str dtype attendees nts =
     (if \<not> uuid_ok e space_id then
        (w, Inr (Error ''Invalid space_id format; expected a UUID.''))
      else if \<not> uuid_ok e user_id then
        (w, Inr (Error ''Invalid user_id format; expected a UUID.''))
      else case parse_datetime e date start_str of
        Inl msg \<Rightarrow> (w, Inr (Error msg))
      | Inr start_datetime \<Rightarrow>
     (case parse_datetime e date end_str of
        Inl msg \<Rightarrow> (w, Inr (Error msg))
      | Inr end_datetime \<Rightarrow>
     (if start_datetime < now e then
        (w, Inr (Error ''Cannot book in the past''))
      else if end_datetime \<le> start_datetime then
        (w, Inr (Error ''End time must be after start time''))
      else case get_space_by_id (db e GetSpaceById) w space_id of
        Inl exc \<Rightarrow> (w, Inl exc)
      | Inr None \<Rightarrow> (w, Inr (Error (''Space not found: '' @ space_id)))
      | Inr (Some sp) \<Rightarrow>
     (case check_space_availability (db e CheckAvailability) w space_id
             start_datetime end_datetime of
        Inl exc \<Rightarrow> (w, Inl exc)
      | Inr False \<Rightarrow>
          (w, Inr (Error ''Space is not available for the requested time slot''))
      | Inr True \<Rightarrow>
     (case calculate_total sp dtype (duration_hours start_datetime end_datetime) of
        None \<Rightarrow>
          (w, Inr (Error ''Could not determine pricing for this space and duration type''))
      | Some total_amt \<Rightarrow>
     (case supabase_create_booking (db e InsertBooking) w (new_booking_id e) user_id space_id
             start_datetime end_datetime dtype total_amt attendees nts None of
        (w1, Inl exc) \<Rightarrow> (w1, Inr (Error ''Failed to create booking''))
      | (w1, Inr None) \<Rightarrow> (w1, Inr (Error ''Failed to create booking''))
      | (w1, Inr (Some bk)) \<Rightarrow>
     (case request_payment e w1 bk sp user_id space_id total_amt of
        (w2, plink, perror, pmeta) \<Rightarrow>
          (w2, Inr (Success (build_response bk
                               (duration_hours start_datetime end_datetime)
                               total_amt plink perror pmeta))))))))))"

section \<open>Webhook handler (api/webhooks.py)\<close>

text \<open>
  A handler returns a body (HTTP 200), raises \<open>HTTPException\<close> (the framework answers
  with that status code), or lets another exception escape.
\<close>

datatype 'a http = Return 'a | HTTPException nat string | Unhandled exn

datatype webhook_body =
    CheckoutAck "string option"
  | IntentAck
  | FailedAck string
  | CustomerAck "string option"
  | Ignored string

fun body_status :: "webhook_body \<Rightarrow> string" where
  "body_status (CheckoutAck _) = ''success''"
| "body_status IntentAck = ''success''"
| "body_status (FailedAck _) = ''failed''"
| "body_status (CustomerAck _) = ''success''"
| "body_status (Ignored _) = ''ignored''"

definition str_of :: "string option \<Rightarrow> string" where
  "str_of s = (case s of None \<Rightarrow> [] | Some x \<Rightarrow> x)"

text \<open>The fallback through the payment intent when the session carries no booking id.\<close>

definition resolve_booking_id :: "env \<Rightarrow> world \<Rightarrow> event_object \<Rightarrow> world \<times> string option" where
  "resolve_booking_id e w session =
     (let booking_id = metadata session ''booking_id'';
          payment_intent_id = payment_intent_ref session
      in if \<not> truthy_str booking_id \<and> truthy_str payment_intent_id then
           (let w1 = log_call (PaymentIntentRetrieve (str_of payment_intent_id)) w
            in case pi_retrieve e (str_of payment_intent_id) of
                 Answers intent \<Rightarrow> (w1, pi_metadata intent ''booking_id'')
               | Raises m \<Rightarrow> (w1, booking_id))
         else (w, booking_id))"

text \<open>
  The \<open>try\<close> block of the \<open>checkout.session.completed\<close> branch: the first call that
  raises ends the block, and the \<open>except\<close> clause only prints.
\<close>

definition confirm_after_checkout ::
  "env \<Rightarrow> world \<Rightarrow> string \<Rightarrow> string option \<Rightarrow> string option \<Rightarrow> world" where
  "confirm_after_checkout e w booking_id payment_intent_id cust_email =
     (case update_booking_status (db e UpdateBookingStatus) w booking_id ''confirmed'' of
        (w1, Inl exc) \<Rightarrow> w1
      | (w1, Inr row) \<Rightarrow>
     (case update_payment_status (db e UpdatePaymentStatus) w1 booking_id ''completed''
             payment_intent_id (Some (now e)) None of
        (w2, Inl exc) \<Rightarrow> w2
      | (w2, Inr prow) \<Rightarrow>
          w2\<lparr>email_tasks := email_tasks w2 @ [(booking_id, cust_email)]\<rparr>))"

definition handle_event :: "env \<Rightarrow> world \<Rightarrow> event \<Rightarrow> world \<times> webhook_body http" where
  "handle_event e w ev =
     (let event_type = ev_type ev; event_data = ev_object ev
      in if event_type = ''checkout.session.completed'' then
           (case resolve_booking_id e w event_data of
              (w1, booking_id) \<Rightarrow>
                if truthy_str booking_id then
                  (confirm_after_checkout e w1 (str_of booking_id)
                     (payment_intent_ref event_data) (customer_email event_data),
                   Return (CheckoutAck booking_id))
                else (w1, Return (CheckoutAck booking_id)))
         else if event_type = ''payment_intent.succeeded'' then
           (let booking_id = metadata event_data ''booking_id''
            in if truthy_str booking_id then
                 (case update_booking_status (db e UpdateBookingStatus) w
                         (str_of booking_id) ''confirmed'' of
                    (w1, Inl exc) \<Rightarrow> (w1, Return IntentAck)
                  | (w1, Inr row) \<Rightarrow> (w1, Return IntentAck))
               else (w, Return IntentAck))
         else if event_type = ''payment_intent.payment_failed'' then
           (let booking_id = metadata event_data ''booking_id'';
                failure_message =
                  (case last_payment_error event_data of
                     None \<Rightarrow> ''Unknown error''
                   | Some None \<Rightarrow> ''Unknown error''
                   | Some (Some m) \<Rightarrow> m)
            in if truthy_str booking_id then
                 (case update_payment_status (db e UpdatePaymentStatus) w
                         (str_of booking_id) ''failed'' None None None of
                    (w1, Inl exc) \<Rightarrow> (w1, Return (FailedAck failure_message))
                  | (w1, Inr prow) \<Rightarrow> (w1, Return (FailedAck failure_message)))
               else (w, Return (FailedAck failure_message)))
         else if event_type = ''customer.created'' then
           (w, Return (CustomerAck (obj_id event_data)))
         else (w, Return (Ignored event_type)))"

definition stripe_webhook ::
  "env \<Rightarrow> world \<Rightarrow> string \<Rightarrow> string option \<Rightarrow> world \<times> webhook_body http" where
  "stripe_webhook e w payload stripe_signature =
     (if \<not> stripe_available e then
        (w, HTTPException 503 ''Stripe integration not available'')
      else if \<not> truthy_str stripe_signature then
        (w, HTTPException 400 ''Missing Stripe signature'')
      else case construct_event e payload (str_of stripe_signature)
                  (stripe_webhook_secret e) of
        ValueError m \<Rightarrow> (w, HTTPException 400 ''Invalid payload'')
      | SignatureVerificationError m \<Rightarrow> (w, HTTPException 400 ''Invalid signature'')
      | Verified ev \<Rightarrow> handle_event e w ev)"

section \<open>Pull-path reconciliation (api/bookings.py)\<close>



definition succeeded_intent :: "payment_intent list \<Rightarrow> payment_intent option" where
  "succeeded_intent results = first_row (filter (\<lambda>intent. pi_status intent = ''succeeded'') results)"






text \<open>
  Two worlds with the same bookings, the same payment records and the same confirmation
  tasks; they may differ in the log of provider calls.
\<close>

definition same_tables :: "world \<Rightarrow> world \<Rightarrow> bool" where
  "same_tables w' w \<longleftrightarrow>
     bookings w' = bookings w \<and> payments w' = payments w \<and> email_tasks w' = email_tasks w"

section \<open>Example data\<close>

text \<open>
  A meeting room at RM40 per hour and RM200 per day, a user, a clock at 2030-01-01
  00:00, and a provider that answers within two seconds. The parser knows four times
  of 2030-01-07.
\<close>

definition space_a :: space where
  "space_a = \<lparr> sp_id = ''123e4567-e89b-12d3-a456-426614174000'',
       sp_name = ''Meeting Room A'', sp_type = ''meeting_room'',
       sp_location = ''Kuala Lumpur'', hourly_rate = Some 40, daily_rate = Some 200,
       monthly_rate = None, is_active = True \<rparr>"

definition user_a :: string where
  "user_a = ''123e4567-e89b-12d3-a456-426614174001''"

definition t1400 :: instant where "t1400 = 1894024800000000"
definition t1420 :: instant where "t1420 = 1894026000000000"
definition t1430 :: instant where "t1430 = 1894026600000000"
definition t1600 :: instant where "t1600 = 1894032000000000"
definition t1800 :: instant where "t1800 = 1894039200000000"

definition parse_a :: "string \<Rightarrow> string \<Rightarrow> string + instant" where
  "parse_a d t =
     (if d = ''2030-01-07'' \<and> t = ''14:00'' then Inr t1400
      else if d = ''2030-01-07'' \<and> t = ''14:20'' then Inr t1420
      else if d = ''2030-01-07'' \<and> t = ''14:30'' then Inr t1430
      else if d = ''2030-01-07'' \<and> t = ''16:00'' then Inr t1600
      else Inl (''Could not parse date: '' @ d))"

definition object_a :: event_object where
  "object_a = \<lparr> metadata = [''booking_id'' \<mapsto> ''b1''], customer_email = None,
       payment_intent_ref = Some ''pi_1'', amount_total = Some 8000,
       last_payment_error = None, obj_id = Some ''pi_1'', email = None \<rparr>"

definition event_succeeded :: event where
  "event_succeeded = \<lparr> ev_type = ''payment_intent.succeeded'', ev_object = object_a \<rparr>"

definition event_completed :: event where
  "event_completed = \<lparr> ev_type = ''checkout.session.completed'', ev_object = object_a \<rparr>"

text \<open>
  A signature check that accepts two signatures, one for each of the events above,
  rejects every other signature, and cannot parse an empty payload.
\<close>

definition construct_a :: "string \<Rightarrow> string \<Rightarrow> string \<Rightarrow> verify_result" where
  "construct_a payload sg secret =
     (if payload = [] then ValueError ''Expecting value''
      else if sg = ''t=1,v1=aa'' then Verified event_succeeded
      else if sg = ''t=1,v1=bb'' then Verified event_completed
      else SignatureVerificationError ''No signatures found matching the expected signature'')"

definition env_a :: env where
  "env_a = \<lparr> now = 1893456000000000, uuid_ok = (\<lambda>x. length x = 36),
       parse_datetime = parse_a, new_booking_id = ''b1'', stripe_secret_key = ''sk_test'',
       frontend_url = ''http://localhost:3000'', db = (\<lambda>site. DbOk),
       price_create = Answers \<lparr> price_id = ''price_1'', price_product = ''prod_1'' \<rparr>,
       link_create = Answers \<lparr> link_id = ''plink_1'',
                                 link_url = ''https://buy.stripe.com/test_1'' \<rparr>,
       mint_seconds = 2, stripe_available = True, stripe_webhook_secret = ''whsec'',
       construct_event = construct_a, session_list = (\<lambda>l. Answers []),
       pi_retrieve = (\<lambda>i. Raises ''No such payment_intent''),
       pi_search = (\<lambda>b. Answers []) \<rparr>"

definition world_a :: world where
  "world_a = \<lparr> spaces = [space_a], bookings = [], payments = [], stripe_log = [],
                email_tasks = [] \<rparr>"

definition booking_a :: booking where
  "booking_a = \<lparr> b_id = ''b1'', b_user_id = user_a, b_space_id = sp_id space_a,
       start_time = t1400, end_time = t1600, duration_type = ''hourly'',
       status = ''pending'', total_amount = 80, attendees_count = 2, b_notes = None,
       special_requirements = None \<rparr>"

definition payment_a :: payment where
  "payment_a = \<lparr> p_user_id = user_a, p_booking_id = ''b1'', amount = 80,
       currency = ''MYR'', payment_status = ''pending'', payment_provider = ''stripe'',
       transaction_id = Some ''plink_1'', paid_at = None, receipt_url = None \<rparr>"

definition log_a :: "stripe_call list" where
  "log_a = [PriceCreate ''myr'' 8000 ''Meeting Room A booking''
              [(''space_id'', sp_id space_a), (''booking_id'', ''b1'')],
            PaymentLinkCreate ''price_1''
              [(''booking_id'', ''b1''), (''user_id'', user_a), (''space_id'', sp_id space_a)]
              ''http://localhost:3000/?payment_status=success&booking_id=b1'']"

definition response_a :: response_payload where
  "response_a = build_response booking_a 2 80 (Some ''https://buy.stripe.com/test_1'') None
     (Some \<lparr> payment_link_id = ''plink_1'', md_price_id = ''price_1'',
              product_id = ''prod_1'', md_amount_cents = 8000, md_currency = ''myr'' \<rparr>)"

text \<open>The world after the booking above was made, and the same with it cancelled.\<close>

definition world_b :: world where
  "world_b = world_a\<lparr>bookings := [booking_a], payments := [payment_a],
                      stripe_log := log_a\<rparr>"

definition world_c :: world where
  "world_c = world_b\<lparr>bookings := [booking_a\<lparr>status := ''cancelled''\<rparr>]\<rparr>"

text \<open>The same room at RM12.25, at RM2.03 and at RM0 per hour.\<close>

definition space_q :: space where
  "space_q = space_a\<lparr>hourly_rate := Some (49 / 4)\<rparr>"

definition space_r :: space where
  "space_r = space_a\<lparr>hourly_rate := Some (203 / 100)\<rparr>"

definition space_z :: space where
  "space_z = space_a\<lparr>hourly_rate := Some 0\<rparr>"

text \<open>The same room without a daily rate, and without any usable rate.\<close>

definition space_h :: space where
  "space_h = space_a\<lparr>daily_rate := None\<rparr>"

definition space_n :: space where
  "space_n = space_a\<lparr>hourly_rate := None, daily_rate := None\<rparr>"

text \<open>
  Variations of the environment: the database rejects the insert into \<open>payments\<close>;
  that insert times out and still lands; the provider needs thirteen seconds.
\<close>

definition env_f :: env where
  "env_f = env_a\<lparr>db := (\<lambda>site. if site = InsertPayment
                               then DbError ''new row violates row-level security policy''
                               else DbOk)\<rparr>"

definition env_l :: env where
  "env_l = env_a\<lparr>db := (\<lambda>site. if site = InsertPayment then DbTimeout True else DbOk)\<rparr>"

definition env_t :: env where
  "env_t = env_a\<lparr>mint_seconds := 13\<rparr>"

definition response_t :: response_payload where
  "response_t = build_response booking_a 2 80 None (Some ''Failed to create payment link: '')
     None"


text \<open>
  Further variations: the provider library is not installed; the database rejects the
  update of the booking status; the provider lists a paid session for the payment link.
\<close>

definition env_u :: env where
  "env_u = env_a\<lparr>stripe_available := False\<rparr>"

definition env_d :: env where
  "env_d = env_a\<lparr>db := (\<lambda>site. if site = UpdateBookingStatus
                               then DbError ''connection refused'' else DbOk)\<rparr>"

definition intent_a :: payment_intent where
  "intent_a = \<lparr> pi_id = ''pi_1'', pi_status = ''succeeded'',
       pi_metadata = [''booking_id'' \<mapsto> ''b1''], receipt_email = Some ''a@example.com'',
       charges_data = None \<rparr>"

definition env_p :: env where
  "env_p = env_a\<lparr>
       session_list := (\<lambda>l. if l = ''plink_1''
                            then Answers [\<lparr> cs_payment_status = Some ''paid'',
                                            cs_payment_intent = Some ''pi_1'' \<rparr>]
                            else Answers []),
       pi_retrieve := (\<lambda>i. if i = ''pi_1'' then Answers intent_a
                           else Raises ''No such payment_intent'')\<rparr>"

text \<open>The world after the booking was confirmed.\<close>

definition world_d :: world where
  "world_d = world_b\<lparr>bookings := [booking_a\<lparr>status := ''confirmed''\<rparr>]\<rparr>"

section \<open>Basic facts\<close>

lemma first_row_None: "first_row xs = None \<longleftrightarrow> xs = []"
  by (cases xs) (simp_all add: first_row_def)

lemma map_set_status_same:
  "\<forall>b\<in>set bs. b_id b = bid \<longrightarrow> status b = s \<Longrightarrow> map (set_status bid s) bs = bs"
  by (induction bs) (auto simp: set_status_def)

lemmas example_defs =
  space_a_def user_a_def t1400_def t1420_def t1430_def t1600_def t1800_def parse_a_def object_a_def
  event_succeeded_def event_completed_def construct_a_def env_a_def world_a_def
  booking_a_def payment_a_def log_a_def response_a_def world_b_def world_c_def space_q_def space_r_def space_z_def env_l_def
  space_h_def space_n_def env_f_def env_t_def response_t_def
  env_u_def env_d_def intent_a_def env_p_def world_d_def

section \<open>Status transitions\<close>

text \<open>
  C1 (as amended). \<open>update_booking_status\<close> writes the target status to every row with
  the given id, whatever the row's status was: the table keeps its length, a row with
  the id gets the new status and is otherwise unchanged, every other row is unchanged,
  the call returns no row exactly when no row has the id, and when the rows with the id
  already carry the target status the world is left as it was. There is no edge that it
  refuses.
\<close>

theorem update_booking_status_unconditional:
  "update_booking_status DbOk w bid s = (w', Inr r) \<Longrightarrow>
     length (bookings w') = length (bookings w) \<and>
     (\<forall>i < length (bookings w).
        (b_id (bookings w ! i) = bid \<longrightarrow>
           bookings w' ! i = (bookings w ! i)\<lparr>status := s\<rparr>) \<and>
        (b_id (bookings w ! i) \<noteq> bid \<longrightarrow> bookings w' ! i = bookings w ! i)) \<and>
     ((\<forall>b\<in>set (bookings w). b_id b = bid \<longrightarrow> status b = s) \<longrightarrow> w' = w) \<and>
     (r = None \<longleftrightarrow> (\<forall>b\<in>set (bookings w). b_id b \<noteq> bid))"
proof -
  assume a: "update_booking_status DbOk w bid s = (w', Inr r)"
  from a have w': "w' = w\<lparr>bookings := map (set_status bid s) (bookings w)\<rparr>"
    by (simp add: update_booking_status_def db_write_def)
  from a have r: "r = first_row (map (set_status bid s)
                                  (filter (\<lambda>b. b_id b = bid) (bookings w)))"
    by (simp add: update_booking_status_def db_write_def)
  have len: "length (bookings w') = length (bookings w)"
    by (simp add: w')
  have rows: "\<forall>i < length (bookings w).
        (b_id (bookings w ! i) = bid \<longrightarrow>
           bookings w' ! i = (bookings w ! i)\<lparr>status := s\<rparr>) \<and>
        (b_id (bookings w ! i) \<noteq> bid \<longrightarrow> bookings w' ! i = bookings w ! i)"
    by (simp add: w' set_status_def)
  have same: "(\<forall>b\<in>set (bookings w). b_id b = bid \<longrightarrow> status b = s) \<longrightarrow> w' = w"
    by (simp add: w' map_set_status_same)
  have none: "r = None \<longleftrightarrow> (\<forall>b\<in>set (bookings w). b_id b \<noteq> bid)"
    by (auto simp: r first_row_None filter_empty_conv)
  from len rows same none show ?thesis by blast
qed

theorem update_booking_status_unconditional_witness:
  "update_booking_status DbOk world_b ''b1'' ''confirmed'' =
     (world_b\<lparr>bookings := [booking_a\<lparr>status := ''confirmed''\<rparr>]\<rparr>,
      Inr (Some (booking_a\<lparr>status := ''confirmed''\<rparr>))) \<and>
   length (bookings (world_b\<lparr>bookings := [booking_a\<lparr>status := ''confirmed''\<rparr>]\<rparr>)) =
     length (bookings world_b) \<and>
   Some (booking_a\<lparr>status := ''confirmed''\<rparr>) \<noteq> None"
proof -
  have h: "update_booking_status DbOk world_b ''b1'' ''confirmed'' =
     (world_b\<lparr>bookings := [booking_a\<lparr>status := ''confirmed''\<rparr>]\<rparr>,
      Inr (Some (booking_a\<lparr>status := ''confirmed''\<rparr>)))"
    by (simp add: update_booking_status_def db_write_def set_status_def first_row_def
        example_defs)
  from update_booking_status_unconditional [OF h] h show ?thesis by simp
qed

text \<open>
  The claim as written fails: a cancelled booking is overwritten with \<open>confirmed\<close>, by
  the service call itself and by the webhook's \<open>payment_intent.succeeded\<close> branch, and
  neither signals an illegal transition.
\<close>

theorem terminal_state_overwritten:
  "map status (bookings world_c) = [''cancelled''] \<and>
   update_booking_status DbOk world_c ''b1'' ''confirmed'' =
     (world_c\<lparr>bookings := [booking_a\<lparr>status := ''confirmed''\<rparr>]\<rparr>,
      Inr (Some (booking_a\<lparr>status := ''confirmed''\<rparr>))) \<and>
   stripe_webhook env_a world_c ''{}'' (Some ''t=1,v1=aa'') =
     (world_c\<lparr>bookings := [booking_a\<lparr>status := ''confirmed''\<rparr>]\<rparr>, Return IntentAck)"
  by (simp add: update_booking_status_def db_write_def set_status_def first_row_def
      stripe_webhook_def handle_event_def str_of_def example_defs)

section \<open>Availability\<close>

text \<open>
  C2. When the query is answered, \<open>check_space_availability\<close> returns true exactly when
  no booking of the space that is not cancelled satisfies \<open>s1 < end\<close> and
  \<open>start < e1\<close>; so it returns true when every such booking ends at or before the
  requested start or starts at or after the requested end. Whatever the outcome of the
  database call, a value it returns is that one.
\<close>

theorem check_space_availability_overlap:
  "check_space_availability DbOk w sid s e =
     Inr (\<not> (\<exists>b\<in>set (bookings w). b_space_id b = sid \<and> status b \<noteq> ''cancelled''
                \<and> start_time b < e \<and> s < end_time b)) \<and>
   ((\<forall>b\<in>set (bookings w). b_space_id b = sid \<and> status b \<noteq> ''cancelled''
        \<longrightarrow> end_time b \<le> s \<or> e \<le> start_time b)
      \<longrightarrow> check_space_availability DbOk w sid s e = Inr True) \<and>
   (\<forall>out r. check_space_availability out w sid s e = Inr r \<longrightarrow>
      r = (\<not> (\<exists>b\<in>set (bookings w). b_space_id b = sid \<and> status b \<noteq> ''cancelled''
                \<and> start_time b < e \<and> s < end_time b)))"
proof -
  have q: "(length (overlapping w sid s e) = 0) =
     (\<not> (\<exists>b\<in>set (bookings w). b_space_id b = sid \<and> status b \<noteq> ''cancelled''
                \<and> start_time b < e \<and> s < end_time b))"
    by (auto simp: overlapping_def filter_empty_conv)
  have ok: "check_space_availability DbOk w sid s e =
     Inr (\<not> (\<exists>b\<in>set (bookings w). b_space_id b = sid \<and> status b \<noteq> ''cancelled''
                \<and> start_time b < e \<and> s < end_time b))"
    unfolding check_space_availability_def q by simp
  have any: "check_space_availability out w sid s e = Inr r \<Longrightarrow>
      r = (\<not> (\<exists>b\<in>set (bookings w). b_space_id b = sid \<and> status b \<noteq> ''cancelled''
                \<and> start_time b < e \<and> s < end_time b))" for out r
    unfolding check_space_availability_def q by (cases out) auto
  have free: "(\<forall>b\<in>set (bookings w). b_space_id b = sid \<and> status b \<noteq> ''cancelled''
        \<longrightarrow> end_time b \<le> s \<or> e \<le> start_time b)
      \<Longrightarrow> check_space_availability DbOk w sid s e = Inr True"
    unfolding ok by fastforce
  from ok any free show ?thesis by blast
qed

theorem check_space_availability_overlap_witness:
  "check_space_availability DbOk world_b (sp_id space_a) t1600 t1800 = Inr True \<and>
   end_time booking_a = t1600 \<and>
   check_space_availability DbOk world_b (sp_id space_a) t1430 t1800 = Inr False"
  using check_space_availability_overlap [of world_b "sp_id space_a" t1600 t1800]
    check_space_availability_overlap [of world_b "sp_id space_a" t1430 t1800]
  by (simp add: example_defs)

section \<open>Facts about booking creation\<close>

lemmas run_defs =
  create_booking_def get_space_by_id_def check_space_availability_def
  overlapping_def calculate_total_def duration_hours_def total_seconds_def
  supabase_create_booking_def request_payment_def run_with_timeout_def
  create_payment_link_sync_def create_payment_record_def payment_link_timeout_def
  db_write_def log_call_def first_row_def build_response_def amount_cents_def py_round_def
  Let_def

text \<open>The doubles nearest to the numbers that occur in the examples.\<close>

lemma fl_values:
  "fl 2 = 2" "fl 20 = 20" "fl 40 = 40" "fl 80 = 80" "fl 200 = 200" "fl 1200 = 1200"
  "fl 1800 = 1800" "fl 7200 = 7200" "fl 8000 = 8000" "fl (1 / 2) = 1 / 2"
  "fl (49 / 4) = 49 / 4" "fl (49 / 8) = 49 / 8" "fl (1225 / 2) = 1225 / 2"
  "fl (1 / 3) = 6004799503160661 / 18014398509481984"
  "fl (203 / 100) = 4571153621781053 / 2251799813685248"
  "fl (1 / 10) = 3602879701896397 / 36028797018963968"
  by code_simp+

lemma create_booking_SuccessE:
  assumes "create_booking e w uid sid date st en dtype att nts = (w', Inr (Success p))"
  obtains s t sp total_amt w1 bk plink perror pmeta where
    "uuid_ok e sid" "uuid_ok e uid"
    "parse_datetime e date st = Inr s" "parse_datetime e date en = Inr t"
    "now e \<le> s" "s < t"
    "get_space_by_id (db e GetSpaceById) w sid = Inr (Some sp)"
    "check_space_availability (db e CheckAvailability) w sid s t = Inr True"
    "calculate_total sp dtype (duration_hours s t) = Some total_amt"
    "supabase_create_booking (db e InsertBooking) w (new_booking_id e) uid sid s t dtype
        total_amt att nts None = (w1, Inr (Some bk))"
    "request_payment e w1 bk sp uid sid total_amt = (w', plink, perror, pmeta)"
    "p = build_response bk (duration_hours s t) total_amt plink perror pmeta"
  using assms unfolding create_booking_def
  by (auto split: if_splits sum.splits option.splits bool.splits prod.splits)

lemma create_booking_reaches_pricing:
  assumes "uuid_ok e sid" "uuid_ok e uid"
    "parse_datetime e date st = Inr s" "parse_datetime e date en = Inr t"
    "now e \<le> s" "s < t"
    "get_space_by_id (db e GetSpaceById) w sid = Inr (Some sp)"
    "check_space_availability (db e CheckAvailability) w sid s t = Inr True"
  shows "create_booking e w uid sid date st en dtype att nts =
     (case calculate_total sp dtype (duration_hours s t) of
        None \<Rightarrow>
          (w, Inr (Error ''Could not determine pricing for this space and duration type''))
      | Some total_amt \<Rightarrow>
     (case supabase_create_booking (db e InsertBooking) w (new_booking_id e) uid sid
             s t dtype total_amt att nts None of
        (w1, Inl exc) \<Rightarrow> (w1, Inr (Error ''Failed to create booking''))
      | (w1, Inr None) \<Rightarrow> (w1, Inr (Error ''Failed to create booking''))
      | (w1, Inr (Some bk)) \<Rightarrow>
     (case request_payment e w1 bk sp uid sid total_amt of
        (w2, plink, perror, pmeta) \<Rightarrow>
          (w2, Inr (Success (build_response bk (duration_hours s t)
                               total_amt plink perror pmeta))))))"
  using assms unfolding create_booking_def by simp

lemma create_booking_changed:
  assumes "create_booking e w uid sid date st en dtype att nts = (w', r)" "w' \<noteq> w"
  shows "\<exists>s t. parse_datetime e date st = Inr s \<and> parse_datetime e date en = Inr t
            \<and> now e \<le> s \<and> s < t"
  using assms unfolding create_booking_def
  by (auto split: if_splits sum.splits option.splits bool.splits prod.splits)

lemma log_call_tables [simp]:
  "bookings (log_call c w) = bookings w" "payments (log_call c w) = payments w"
  "spaces (log_call c w) = spaces w" "email_tasks (log_call c w) = email_tasks w"
  "stripe_log (log_call c w) = stripe_log w @ [c]"
  by (simp_all add: log_call_def)

lemma create_payment_link_sync_tables:
  "create_payment_link_sync e w bk sp uid sid t = (w1, r) \<Longrightarrow>
     bookings w1 = bookings w \<and> payments w1 = payments w \<and> spaces w1 = spaces w
     \<and> email_tasks w1 = email_tasks w
     \<and> (\<exists>nm md rest. stripe_log w1 = stripe_log w @ PriceCreate ''myr'' (amount_cents t) nm md # rest)"
  unfolding create_payment_link_sync_def
  by (auto simp: Let_def split: provider.splits)

lemma run_with_timeout_tables:
  "run_with_timeout e w bk sp uid sid t = (w1, r) \<Longrightarrow>
     bookings w1 = bookings w \<and> payments w1 = payments w \<and> spaces w1 = spaces w
     \<and> email_tasks w1 = email_tasks w
     \<and> (\<exists>nm md rest. stripe_log w1 = stripe_log w @ PriceCreate ''myr'' (amount_cents t) nm md # rest)"
  unfolding run_with_timeout_def
  by (auto split: prod.splits if_splits dest!: create_payment_link_sync_tables)

lemma supabase_create_booking_row:
  "supabase_create_booking out w nid uid sid s t dtype total_amt att nts sr = (w1, Inr (Some bk))
   \<Longrightarrow>
     bookings w1 = bookings w @ [bk] \<and> payments w1 = payments w \<and> spaces w1 = spaces w
     \<and> stripe_log w1 = stripe_log w \<and> email_tasks w1 = email_tasks w
     \<and> status bk = ''pending'' \<and> total_amount bk = total_amt \<and> duration_type bk = dtype
     \<and> b_id bk = nid \<and> start_time bk = s \<and> end_time bk = t \<and> b_space_id bk = sid
     \<and> b_user_id bk = uid"
  by (cases out) (auto simp: supabase_create_booking_def db_write_def Let_def first_row_def)

lemma create_payment_record_tables:
  "create_payment_record out w uid bid amt ps pv txn = (w', r) \<Longrightarrow>
     bookings w' = bookings w \<and> spaces w' = spaces w \<and> email_tasks w' = email_tasks w
     \<and> stripe_log w' = stripe_log w"
  by (auto simp: create_payment_record_def db_write_def Let_def split: if_splits)

lemma request_payment_bookings:
  "request_payment e w bk sp uid sid t = (w', pl, pe, pm) \<Longrightarrow>
     bookings w' = bookings w \<and> spaces w' = spaces w \<and> email_tasks w' = email_tasks w"
  unfolding request_payment_def
  by (auto simp: Let_def split: if_splits prod.splits sum.splits
       dest!: run_with_timeout_tables create_payment_record_tables)

lemma request_payment_details:
  "request_payment e w bk sp uid sid t = (w', pl, pe, Some md) \<Longrightarrow>
     md_amount_cents md = amount_cents t"
  unfolding request_payment_def
  by (auto simp: Let_def split: if_splits prod.splits sum.splits)

lemma request_payment_price_call:
  assumes "request_payment e w bk sp uid sid t = (w', pl, pe, pm)" "stripe_secret_key e \<noteq> []"
  shows "\<exists>nm md. PriceCreate ''myr'' (amount_cents t) nm md \<in> set (stripe_log w')"
proof -
  obtain w1 r where run: "run_with_timeout e w bk sp uid sid t = (w1, r)"
    by (cases "run_with_timeout e w bk sp uid sid t")
  from run_with_timeout_tables [OF run] obtain nm md rest where
    log1: "stripe_log w1 = stripe_log w @ PriceCreate ''myr'' (amount_cents t) nm md # rest"
    by blast
  have "stripe_log w' = stripe_log w1"
    using assms run unfolding request_payment_def
    by (auto simp: Let_def split: sum.splits prod.splits dest!: create_payment_record_tables)
  with log1 show ?thesis by auto
qed

lemma py_round_nearest:
  "\<bar>of_int (py_round x) - x\<bar> \<le> 1 / 2 \<and> (\<bar>of_int (py_round x) - x\<bar> = 1 / 2 \<longrightarrow> even (py_round x))"
proof -
  have lo: "of_int \<lfloor>x\<rfloor> \<le> x" and hi: "x < of_int \<lfloor>x\<rfloor> + 1" by linarith+
  show ?thesis
    unfolding py_round_def Let_def using lo hi by auto
qed


text \<open>
  The exponent found by \<open>float_exponent\<close> is the binary exponent of its argument, and
  \<open>fl\<close> moves its argument by at most half a unit in the last place.
\<close>

lemma bitlen_powi_bounds:
  fixes p :: int
  assumes "0 < p"
  shows "(2::rat) powi (bitlen p - 1) \<le> of_int p" "of_int p < (2::rat) powi (bitlen p)"
proof -
  have b: "0 < bitlen p"
    using assms bitlen_eq_zero_iff [of p] bitlen_nonneg [of p] by linarith
  from bitlen_bounds [OF assms]
  have lo: "2 ^ nat (bitlen p - 1) \<le> p" and hi: "p < 2 ^ nat (bitlen p)" by simp_all
  have "(2::rat) powi (bitlen p - 1) = of_int (2 ^ nat (bitlen p - 1))"
    using b by (simp add: power_int_def)
  also have "\<dots> \<le> of_int p" using lo by (simp only: of_int_le_iff)
  finally show "(2::rat) powi (bitlen p - 1) \<le> of_int p" .
  have "(of_int p :: rat) < of_int (2 ^ nat (bitlen p))"
    using hi by (simp only: of_int_less_iff)
  also have "\<dots> = 2 powi (bitlen p)" using b by (simp add: power_int_def)
  finally show "of_int p < (2::rat) powi (bitlen p)" .
qed

lemma float_exponent_bounds:
  assumes "x \<noteq> 0"
  shows "2 powi (float_exponent x) \<le> \<bar>x\<bar> \<and> \<bar>x\<bar> < 2 powi (float_exponent x + 1)"
proof -
  obtain p q where pq: "quotient_of \<bar>x\<bar> = (p, q)" by (cases "quotient_of \<bar>x\<bar>")
  then have q: "0 < q" and x: "\<bar>x\<bar> = of_int p / of_int q"
    by (simp_all add: quotient_of_denom_pos quotient_of_div)
  from assms have "0 < \<bar>x\<bar>" by simp
  with x q have p: "0 < p" by (simp add: zero_less_divide_iff)
  define k where "k = bitlen p - bitlen q"
  note bp = bitlen_powi_bounds [OF p] and bq = bitlen_powi_bounds [OF q]
  have qpos: "(0::rat) < of_int q" using q by simp
  have lo: "(2::rat) powi (k - 1) \<le> \<bar>x\<bar>"
  proof -
    have "(2::rat) powi (k - 1) * of_int q \<le> 2 powi (k - 1) * 2 powi (bitlen q)"
      using bq(2) by (intro mult_left_mono) simp_all
    also have "\<dots> = 2 powi (bitlen p - 1)"
      by (simp add: k_def power_int_add [symmetric])
    also have "\<dots> \<le> of_int p" by (rule bp(1))
    finally show ?thesis unfolding x using qpos by (simp add: pos_le_divide_eq)
  qed
  have hi: "\<bar>x\<bar> < (2::rat) powi (k + 1)"
  proof -
    have "(of_int p :: rat) < 2 powi (bitlen p)" by (rule bp(2))
    also have "\<dots> = 2 powi (k + 1) * 2 powi (bitlen q - 1)"
      by (simp add: k_def power_int_add [symmetric])
    also have "\<dots> \<le> 2 powi (k + 1) * of_int q"
      using bq(1) by (intro mult_left_mono) simp_all
    finally show ?thesis unfolding x using qpos by (simp add: pos_divide_less_eq)
  qed
  have e: "float_exponent x = (if \<bar>x\<bar> < 2 powi k then k - 1 else k)"
    by (simp add: float_exponent_def pq k_def Let_def)
  show ?thesis
    using lo hi unfolding e by (auto simp: not_less)
qed

lemma fl_nearest:
  assumes "x \<noteq> 0"
  shows "\<bar>fl x - x\<bar> \<le> 2 powi (max (float_exponent x) (- 1022) - 52) / 2"
proof -
  define u :: rat where "u = 2 powi (max (float_exponent x) (- 1022) - 52)"
  have u: "0 < u" by (simp add: u_def)
  have "\<bar>of_int (py_round (x / u)) - x / u\<bar> \<le> 1 / 2"
    using py_round_nearest [of "x / u"] by simp
  then have "\<bar>of_int (py_round (x / u)) - x / u\<bar> * u \<le> 1 / 2 * u"
    using u by (intro mult_right_mono) simp_all
  moreover have "\<bar>of_int (py_round (x / u)) - x / u\<bar> * u = \<bar>of_int (py_round (x / u)) * u - x\<bar>"
  proof -
    have "(of_int (py_round (x / u)) - x / u) * u = of_int (py_round (x / u)) * u - x"
      using u by (simp add: field_simps)
    then have "\<bar>of_int (py_round (x / u)) * u - x\<bar> = \<bar>of_int (py_round (x / u)) - x / u\<bar> * \<bar>u\<bar>"
      by (simp only: abs_mult [symmetric])
    with u show ?thesis by simp
  qed
  moreover have "fl x = of_int (py_round (x / u)) * u"
    using assms by (simp add: fl_def u_def Let_def)
  ultimately have "\<bar>fl x - x\<bar> \<le> u / 2" by simp
  then show ?thesis unfolding u_def .
qed

lemma floor_half_cent: "\<lfloor>(1225 / 2 :: rat)\<rfloor> = 612"
  by linarith

lemma run_a:
  "create_booking env_a world_a user_a (sp_id space_a) ''2030-01-07'' ''14:00'' ''16:00''
     ''hourly'' 2 None = (world_b, Inr (Success response_a))"
  by (simp add: run_defs example_defs fl_values)

section \<open>Validation of the start instant\<close>

text \<open>
  C3 (as amended). For a request with well-formed identifiers whose date and times
  parse, a start instant strictly before the current instant gives the error
  "Cannot book in the past" and leaves the world as it was: no row is written and no
  provider call is made. Whenever the tool changes the world or reports success, the
  start instant is at or after the current instant and the end instant is after the
  start.
\<close>

theorem create_booking_past:
  "(uuid_ok e sid \<and> uuid_ok e uid \<and> parse_datetime e date st = Inr s
      \<and> parse_datetime e date en = Inr t \<and> s < now e
      \<longrightarrow> create_booking e w uid sid date st en dtype att nts =
            (w, Inr (Error ''Cannot book in the past''))) \<and>
   (\<forall>w' r. create_booking e w uid sid date st en dtype att nts = (w', r)
        \<and> (w' \<noteq> w \<or> is_success r)
      \<longrightarrow> (\<exists>s t. parse_datetime e date st = Inr s \<and> parse_datetime e date en = Inr t
                  \<and> now e \<le> s \<and> s < t))"
proof -
  have past: "create_booking e w uid sid date st en dtype att nts =
            (w, Inr (Error ''Cannot book in the past''))"
    if "uuid_ok e sid" "uuid_ok e uid" "parse_datetime e date st = Inr s"
       "parse_datetime e date en = Inr t" "s < now e"
    using that unfolding create_booking_def by simp
  have pre: "\<exists>s t. parse_datetime e date st = Inr s \<and> parse_datetime e date en = Inr t
                  \<and> now e \<le> s \<and> s < t"
    if run: "create_booking e w uid sid date st en dtype att nts = (w', r)"
      and eff: "w' \<noteq> w \<or> is_success r" for w' r
  proof (cases "w' \<noteq> w")
    case True
    with run show ?thesis by (rule create_booking_changed)
  next
    case False
    with eff have "is_success r" by simp
    then obtain p where "r = Inr (Success p)"
      by (cases r rule: is_success.cases) simp_all
    with run show ?thesis
      by (auto elim!: create_booking_SuccessE)
  qed
  from past pre show ?thesis by blast
qed

theorem create_booking_past_witness:
  "create_booking (env_a\<lparr>now := t1430\<rparr>) world_a user_a (sp_id space_a) ''2030-01-07''
       ''14:00'' ''16:00'' ''hourly'' 2 None =
     (world_a, Inr (Error ''Cannot book in the past'')) \<and>
   parse_datetime (env_a\<lparr>now := t1430\<rparr>) ''2030-01-07'' ''14:00'' = Inr t1400 \<and>
   t1400 < now (env_a\<lparr>now := t1430\<rparr>)"
  using create_booking_past [of "env_a\<lparr>now := t1430\<rparr>" "sp_id space_a" user_a
      "''2030-01-07''" "''14:00''" t1400 "''16:00''" t1600 world_a "''hourly''" 2 None]
  by (simp add: example_defs)

text \<open>
  The claim as written fails at the boundary: a start instant equal to the current
  instant is not strictly in the future, and the booking is created.
\<close>

theorem booking_at_current_instant:
  "parse_datetime (env_a\<lparr>now := t1400\<rparr>) ''2030-01-07'' ''14:00'' =
     Inr (now (env_a\<lparr>now := t1400\<rparr>)) \<and>
   bookings (fst (create_booking (env_a\<lparr>now := t1400\<rparr>) world_a user_a (sp_id space_a)
       ''2030-01-07'' ''14:00'' ''16:00'' ''hourly'' 2 None)) = [booking_a] \<and>
   is_success (snd (create_booking (env_a\<lparr>now := t1400\<rparr>) world_a user_a (sp_id space_a)
       ''2030-01-07'' ''14:00'' ''16:00'' ''hourly'' 2 None))"
  by (simp add: run_defs example_defs fl_values)

section \<open>Rounding of amounts\<close>

text \<open>
  C4 (as amended). The total of a created booking is the float the pricing chain
  computes, stored and reported without rounding. Only the amount in cents sent to the
  provider is rounded: it is the integer nearest to the float product of the total and
  100, so it differs from that product by at most a half, and a product that lies
  exactly half-way goes to the even integer.
\<close>

theorem amount_rounding:
  "(create_booking e w uid sid date st en dtype att nts = (w', Inr (Success p)) \<longrightarrow>
      (\<exists>sp s t bk. get_space_by_id (db e GetSpaceById) w sid = Inr (Some sp)
          \<and> parse_datetime e date st = Inr s \<and> parse_datetime e date en = Inr t
          \<and> calculate_total sp dtype (duration_hours s t) = Some (r_total_amount p)
          \<and> bookings w' = bookings w @ [bk] \<and> total_amount bk = r_total_amount p) \<and>
      (\<forall>md. r_payment_details p = Some md \<longrightarrow>
          md_amount_cents md = amount_cents (r_total_amount p)) \<and>
      (stripe_secret_key e \<noteq> [] \<longrightarrow>
          (\<exists>nm md. PriceCreate ''myr'' (amount_cents (r_total_amount p)) nm md
                      \<in> set (stripe_log w')))) \<and>
   \<bar>of_int (amount_cents x) - fl (x * 100)\<bar> \<le> 1 / 2 \<and>
   (\<bar>of_int (amount_cents x) - fl (x * 100)\<bar> = 1 / 2 \<longrightarrow> even (amount_cents x))"
proof -
  have run: "(\<exists>sp s t bk. get_space_by_id (db e GetSpaceById) w sid = Inr (Some sp)
          \<and> parse_datetime e date st = Inr s \<and> parse_datetime e date en = Inr t
          \<and> calculate_total sp dtype (duration_hours s t) = Some (r_total_amount p)
          \<and> bookings w' = bookings w @ [bk] \<and> total_amount bk = r_total_amount p) \<and>
      (\<forall>md. r_payment_details p = Some md \<longrightarrow>
          md_amount_cents md = amount_cents (r_total_amount p)) \<and>
      (stripe_secret_key e \<noteq> [] \<longrightarrow>
          (\<exists>nm md. PriceCreate ''myr'' (amount_cents (r_total_amount p)) nm md
                      \<in> set (stripe_log w')))"
    if ok: "create_booking e w uid sid date st en dtype att nts = (w', Inr (Success p))"
  proof -
    from ok obtain s t sp total_amt w1 bk plink perror pmeta where
      sp: "get_space_by_id (db e GetSpaceById) w sid = Inr (Some sp)"
      and s: "parse_datetime e date st = Inr s" and t: "parse_datetime e date en = Inr t"
      and tot: "calculate_total sp dtype (duration_hours s t) = Some total_amt"
      and ins: "supabase_create_booking (db e InsertBooking) w (new_booking_id e) uid sid s t
                  dtype total_amt att nts None = (w1, Inr (Some bk))"
      and pay: "request_payment e w1 bk sp uid sid total_amt = (w', plink, perror, pmeta)"
      and p: "p = build_response bk (duration_hours s t) total_amt plink perror pmeta"
      by (rule create_booking_SuccessE)
    have amt: "r_total_amount p = total_amt" and det: "r_payment_details p = pmeta"
      by (simp_all add: p build_response_def)
    from supabase_create_booking_row [OF ins] request_payment_bookings [OF pay]
    have rows: "bookings w' = bookings w @ [bk]" "total_amount bk = total_amt"
      by simp_all
    have cents: "md_amount_cents md = amount_cents total_amt" if "pmeta = Some md" for md
      using pay that by (auto dest: request_payment_details)
    have call: "\<exists>nm md. PriceCreate ''myr'' (amount_cents total_amt) nm md \<in> set (stripe_log w')"
      if "stripe_secret_key e \<noteq> []"
      using pay that by (rule request_payment_price_call)
    from sp s t tot rows cents call show ?thesis
      unfolding amt det by blast
  qed
  from py_round_nearest [of "fl (x * 100)"]
  have near: "\<bar>of_int (amount_cents x) - fl (x * 100)\<bar> \<le> 1 / 2"
    and tie: "\<bar>of_int (amount_cents x) - fl (x * 100)\<bar> = 1 / 2 \<longrightarrow> even (amount_cents x)"
    by (simp_all add: amount_cents_def)
  from run near tie show ?thesis by blast
qed

lemma total_r:
  "calculate_total space_r ''hourly'' (duration_hours t1400 t1430) =
     Some (4571153621781053 / 4503599627370496)"
  by code_simp

lemma cents_r: "amount_cents (4571153621781053 / 4503599627370496) = 101"
  by code_simp

theorem amount_rounding_witness:
  "create_booking env_a world_a user_a (sp_id space_a) ''2030-01-07'' ''14:00'' ''16:00''
     ''hourly'' 2 None = (world_b, Inr (Success response_a)) \<and>
   r_total_amount response_a = 80 \<and>
   map total_amount (bookings world_b) = [80] \<and>
   amount_cents (r_total_amount response_a) = 8000 \<and>
   PriceCreate ''myr'' 8000 ''Meeting Room A booking''
       [(''space_id'', sp_id space_a), (''booking_id'', ''b1'')] \<in> set (stripe_log world_b) \<and>
   calculate_total space_r ''hourly'' (duration_hours t1400 t1430) =
     Some (4571153621781053 / 4503599627370496) \<and>
   amount_cents (4571153621781053 / 4503599627370496) = 101"
  using amount_rounding [of env_a world_a user_a "sp_id space_a" "''2030-01-07''" "''14:00''"
      "''16:00''" "''hourly''" 2 None world_b response_a 80]
    amount_rounding [where x = "4571153621781053 / 4503599627370496"] run_a total_r cents_r
  by (simp add: run_defs example_defs fl_values)

text \<open>
  The claim as written fails: at RM12.25 per hour, half an hour costs RM6.125, every
  float operation on the way being exact; the booking stores 6.125, which is not a
  two-decimal value, and the provider is asked for 612 cents, where rounding half-up
  gives 613.
\<close>

theorem half_cent_rounds_to_even:
  "calculate_total space_q ''hourly'' (duration_hours t1400 t1430) = Some (49 / 8) \<and>
   (49 / 8 :: rat) * 100 = 612 + 1 / 2 \<and>
   amount_cents (49 / 8) = 612 \<and>
   map total_amount (bookings (fst (create_booking env_a (world_a\<lparr>spaces := [space_q]\<rparr>)
       user_a (sp_id space_a) ''2030-01-07'' ''14:00'' ''14:30'' ''hourly'' 2 None))) = [49 / 8] \<and>
   hd (stripe_log (fst (create_booking env_a (world_a\<lparr>spaces := [space_q]\<rparr>) user_a
       (sp_id space_a) ''2030-01-07'' ''14:00'' ''14:30'' ''hourly'' 2 None))) =
     PriceCreate ''myr'' 612 ''Meeting Room A booking''
       [(''space_id'', sp_id space_a), (''booking_id'', ''b1'')]"
  by (simp add: run_defs example_defs fl_values floor_half_cent)

section \<open>Pricing\<close>

lemma calculate_total_fallback:
  assumes "dtype = ''hourly'' \<longrightarrow> usable (hourly_rate sp) = None"
    "dtype = ''daily'' \<longrightarrow> usable (daily_rate sp) = None"
    "dtype = ''monthly'' \<longrightarrow> usable (monthly_rate sp) = None"
  shows "calculate_total sp dtype hrs =
     (case usable (hourly_rate sp) of Some h \<Rightarrow> Some (fl (fl h * hrs))
      | None \<Rightarrow> map_option fl (usable (daily_rate sp)))"
  using assms unfolding calculate_total_def
  by (auto split: option.splits)

text \<open>
  C5 (as amended). A rate is usable when it is set and not zero. In hourly mode with a
  usable hourly rate the price is the float product of that rate and the duration in
  hours, fractional hours included; in daily and in monthly mode with a usable rate of
  that mode it is the flat rate, whatever the duration. When the rate of the requested
  mode is not usable, the price is the hourly rate times the duration if the hourly
  rate is usable and the flat daily rate otherwise. A created booking carries the price
  of this chain, and when the chain has no price the tool returns the pricing error and
  the world is as it was.
\<close>

theorem pricing_chain:
  "(dtype = ''hourly'' \<and> usable (hourly_rate sp) = Some h
      \<longrightarrow> calculate_total sp dtype hrs = Some (fl (fl h * hrs))) \<and>
   (dtype = ''daily'' \<and> usable (daily_rate sp) = Some d
      \<longrightarrow> calculate_total sp dtype hrs = Some (fl d)) \<and>
   (dtype = ''monthly'' \<and> usable (monthly_rate sp) = Some m
      \<longrightarrow> calculate_total sp dtype hrs = Some (fl m)) \<and>
   ((dtype = ''hourly'' \<longrightarrow> usable (hourly_rate sp) = None) \<and>
    (dtype = ''daily'' \<longrightarrow> usable (daily_rate sp) = None) \<and>
    (dtype = ''monthly'' \<longrightarrow> usable (monthly_rate sp) = None)
      \<longrightarrow> calculate_total sp dtype hrs =
            (case usable (hourly_rate sp) of
               Some h' \<Rightarrow> Some (fl (fl h' * hrs))
             | None \<Rightarrow> map_option fl (usable (daily_rate sp)))) \<and>
   (create_booking e w uid sid date st en dtype att nts = (w', Inr (Success p))
      \<longrightarrow> (\<exists>sp' s' t'. get_space_by_id (db e GetSpaceById) w sid = Inr (Some sp')
             \<and> parse_datetime e date st = Inr s' \<and> parse_datetime e date en = Inr t'
             \<and> calculate_total sp' dtype (duration_hours s' t') = Some (r_total_amount p))) \<and>
   (uuid_ok e sid \<and> uuid_ok e uid \<and> parse_datetime e date st = Inr s
      \<and> parse_datetime e date en = Inr t \<and> now e \<le> s \<and> s < t
      \<and> get_space_by_id (db e GetSpaceById) w sid = Inr (Some sp)
      \<and> check_space_availability (db e CheckAvailability) w sid s t = Inr True
      \<and> calculate_total sp dtype (duration_hours s t) = None
      \<longrightarrow> create_booking e w uid sid date st en dtype att nts =
            (w, Inr (Error ''Could not determine pricing for this space and duration type'')))"
proof -
  have hourly: "dtype = ''hourly'' \<and> usable (hourly_rate sp) = Some h
      \<longrightarrow> calculate_total sp dtype hrs = Some (fl (fl h * hrs))"
    by (simp add: calculate_total_def)
  have daily: "dtype = ''daily'' \<and> usable (daily_rate sp) = Some d
      \<longrightarrow> calculate_total sp dtype hrs = Some (fl d)"
    by (simp add: calculate_total_def)
  have monthly: "dtype = ''monthly'' \<and> usable (monthly_rate sp) = Some m
      \<longrightarrow> calculate_total sp dtype hrs = Some (fl m)"
    by (simp add: calculate_total_def)
  have fallback: "(dtype = ''hourly'' \<longrightarrow> usable (hourly_rate sp) = None) \<and>
    (dtype = ''daily'' \<longrightarrow> usable (daily_rate sp) = None) \<and>
    (dtype = ''monthly'' \<longrightarrow> usable (monthly_rate sp) = None)
      \<longrightarrow> calculate_total sp dtype hrs =
            (case usable (hourly_rate sp) of
               Some h' \<Rightarrow> Some (fl (fl h' * hrs))
             | None \<Rightarrow> map_option fl (usable (daily_rate sp)))"
    using calculate_total_fallback [of dtype sp hrs] by simp
  have stored: "create_booking e w uid sid date st en dtype att nts = (w', Inr (Success p))
      \<longrightarrow> (\<exists>sp' s' t'. get_space_by_id (db e GetSpaceById) w sid = Inr (Some sp')
             \<and> parse_datetime e date st = Inr s' \<and> parse_datetime e date en = Inr t'
             \<and> calculate_total sp' dtype (duration_hours s' t') = Some (r_total_amount p))"
  proof
    assume "create_booking e w uid sid date st en dtype att nts = (w', Inr (Success p))"
    then show "\<exists>sp' s' t'. get_space_by_id (db e GetSpaceById) w sid = Inr (Some sp')
             \<and> parse_datetime e date st = Inr s' \<and> parse_datetime e date en = Inr t'
             \<and> calculate_total sp' dtype (duration_hours s' t') = Some (r_total_amount p)"
      by (rule create_booking_SuccessE) (auto simp: build_response_def)
  qed
  have unpriced: "uuid_ok e sid \<and> uuid_ok e uid \<and> parse_datetime e date st = Inr s
      \<and> parse_datetime e date en = Inr t \<and> now e \<le> s \<and> s < t
      \<and> get_space_by_id (db e GetSpaceById) w sid = Inr (Some sp)
      \<and> check_space_availability (db e CheckAvailability) w sid s t = Inr True
      \<and> calculate_total sp dtype (duration_hours s t) = None
      \<longrightarrow> create_booking e w uid sid date st en dtype att nts =
            (w, Inr (Error ''Could not determine pricing for this space and duration type''))"
    using create_booking_reaches_pricing [of e sid uid date st s en t w sp dtype att nts]
    by simp
  from hourly daily monthly fallback stored unpriced
  show ?thesis by (intro conjI)
qed

theorem pricing_chain_witness:
  "calculate_total space_a ''hourly'' (duration_hours t1400 t1600) = Some 80 \<and>
   calculate_total space_a ''daily'' (duration_hours t1400 t1600) = Some 200 \<and>
   calculate_total space_a ''monthly'' (duration_hours t1400 t1600) = Some 80 \<and>
   calculate_total space_h ''daily'' (duration_hours t1400 t1430) = Some 20 \<and>
   duration_hours t1400 t1430 = 1 / 2 \<and>
   create_booking env_a (world_a\<lparr>spaces := [space_n]\<rparr>) user_a (sp_id space_a)
       ''2030-01-07'' ''14:00'' ''16:00'' ''hourly'' 2 None =
     (world_a\<lparr>spaces := [space_n]\<rparr>,
      Inr (Error ''Could not determine pricing for this space and duration type''))"
  using pricing_chain [where dtype = "''hourly''" and sp = space_a and h = 40
      and hrs = "duration_hours t1400 t1600" and d = 200 and m = 0 and e = env_a
      and w = "world_a\<lparr>spaces := [space_n]\<rparr>" and uid = user_a and sid = "sp_id space_a"
      and date = "''2030-01-07''" and st = "''14:00''" and en = "''16:00''" and s = t1400
      and t = t1600 and att = 2 and nts = None]
    pricing_chain [where dtype = "''daily''" and sp = space_a and h = 40
      and hrs = "duration_hours t1400 t1600" and d = 200 and m = 0]
    pricing_chain [where dtype = "''monthly''" and sp = space_a and h = 40
      and hrs = "duration_hours t1400 t1600" and d = 200 and m = 0]
    pricing_chain [where dtype = "''daily''" and sp = space_h and h = 40
      and hrs = "duration_hours t1400 t1430" and d = 200 and m = 0]
  by (simp add: run_defs example_defs fl_values)

text \<open>
  The claim as written fails: a room whose hourly rate is set to zero is, in hourly
  mode, charged the daily rate of RM200 and not zero times the duration. Nor is the
  hourly price exact: twenty minutes at RM40 per hour give the double next to 13.33...,
  not a third of 40.
\<close>

lemma total_third:
  "calculate_total space_a ''hourly'' (duration_hours t1400 t1420) =
     Some (3752999689475413 / 281474976710656)"
  by code_simp

theorem zero_rate_charged_daily:
  "hourly_rate space_z = Some 0 \<and> daily_rate space_z = Some 200 \<and>
   calculate_total space_z ''hourly'' (duration_hours t1400 t1600) = Some 200 \<and>
   map total_amount (bookings (fst (create_booking env_a (world_a\<lparr>spaces := [space_z]\<rparr>)
       user_a (sp_id space_a) ''2030-01-07'' ''14:00'' ''16:00'' ''hourly'' 2 None))) = [200] \<and>
   calculate_total space_a ''hourly'' (duration_hours t1400 t1420) =
     Some (3752999689475413 / 281474976710656) \<and>
   (3752999689475413 / 281474976710656 :: rat) \<noteq> 40 * (1 / 3)"
  using total_third by (simp add: run_defs example_defs fl_values)

section \<open>Unknown billing modes\<close>

text \<open>
  C6 (as amended). A request whose billing mode is none of hourly, daily and monthly is
  not rejected for that: once the earlier checks pass it is priced by the default chain,
  and with a usable hourly or daily rate the booking is created, pending, with the mode
  string as given. Only when the space has neither usable rate does the tool return the
  pricing error, and then the world is as it was.
\<close>

theorem unknown_mode_default:
  assumes "dtype \<noteq> ''hourly''" "dtype \<noteq> ''daily''" "dtype \<noteq> ''monthly''"
    and "uuid_ok e sid" "uuid_ok e uid"
    and "parse_datetime e date st = Inr s" "parse_datetime e date en = Inr t"
    and "now e \<le> s" "s < t"
    and "get_space_by_id (db e GetSpaceById) w sid = Inr (Some sp)"
    and "check_space_availability (db e CheckAvailability) w sid s t = Inr True"
  shows "(usable (hourly_rate sp) = None \<and> usable (daily_rate sp) = None \<longrightarrow>
           create_booking e w uid sid date st en dtype att nts =
             (w, Inr (Error ''Could not determine pricing for this space and duration type'')))
       \<and> (db e InsertBooking = DbOk \<and>
            (case usable (hourly_rate sp) of
               Some h \<Rightarrow> Some (fl (fl h * duration_hours s t))
             | None \<Rightarrow> map_option fl (usable (daily_rate sp))) = Some x \<longrightarrow>
           is_success (snd (create_booking e w uid sid date st en dtype att nts)) \<and>
           (\<exists>bk. bookings (fst (create_booking e w uid sid date st en dtype att nts)) =
                    bookings w @ [bk]
                 \<and> duration_type bk = dtype \<and> status bk = ''pending''
                 \<and> total_amount bk = x))"
proof -
  have tot: "calculate_total sp dtype (duration_hours s t) =
     (case usable (hourly_rate sp) of
        Some h \<Rightarrow> Some (fl (fl h * duration_hours s t))
      | None \<Rightarrow> map_option fl (usable (daily_rate sp)))"
    using assms(1-3) by (intro calculate_total_fallback) simp_all
  note run = create_booking_reaches_pricing [OF assms(4-11), of dtype att nts]
  have none: "create_booking e w uid sid date st en dtype att nts =
             (w, Inr (Error ''Could not determine pricing for this space and duration type''))"
    if "usable (hourly_rate sp) = None" "usable (daily_rate sp) = None"
    using run tot that by simp
  have some: "is_success (snd (create_booking e w uid sid date st en dtype att nts)) \<and>
           (\<exists>bk. bookings (fst (create_booking e w uid sid date st en dtype att nts)) =
                    bookings w @ [bk]
                 \<and> duration_type bk = dtype \<and> status bk = ''pending''
                 \<and> total_amount bk = x)"
    if ok: "db e InsertBooking = DbOk"
      and x: "(case usable (hourly_rate sp) of
               Some h \<Rightarrow> Some (fl (fl h * duration_hours s t))
             | None \<Rightarrow> map_option fl (usable (daily_rate sp))) = Some x"
  proof -
    obtain w1 bk where ins: "supabase_create_booking (db e InsertBooking) w (new_booking_id e)
        uid sid s t dtype x att nts None = (w1, Inr (Some bk))"
      by (simp add: ok supabase_create_booking_def db_write_def Let_def first_row_def)
    obtain w2 plink perror pmeta where
      pay: "request_payment e w1 bk sp uid sid x = (w2, plink, perror, pmeta)"
      by (cases "request_payment e w1 bk sp uid sid x") auto
    have res: "create_booking e w uid sid date st en dtype att nts =
        (w2, Inr (Success (build_response bk (duration_hours s t) x plink perror pmeta)))"
      using run tot x ins pay by simp
    from supabase_create_booking_row [OF ins] request_payment_bookings [OF pay]
    show ?thesis unfolding res by simp
  qed
  from none some show ?thesis by blast
qed

theorem unknown_mode_default_witness:
  "create_booking env_a world_a user_a (sp_id space_a) ''2030-01-07'' ''14:00'' ''16:00''
       ''weekly'' 2 None =
     (world_b\<lparr>bookings := [booking_a\<lparr>duration_type := ''weekly''\<rparr>]\<rparr>,
      Inr (Success response_a)) \<and>
   create_booking env_a (world_a\<lparr>spaces := [space_n]\<rparr>) user_a (sp_id space_a)
       ''2030-01-07'' ''14:00'' ''16:00'' ''weekly'' 2 None =
     (world_a\<lparr>spaces := [space_n]\<rparr>,
      Inr (Error ''Could not determine pricing for this space and duration type''))"
  using unknown_mode_default [where dtype = "''weekly''" and e = env_a and sid = "sp_id space_a"
      and uid = user_a and date = "''2030-01-07''" and st = "''14:00''" and s = t1400
      and en = "''16:00''" and t = t1600 and w = world_a and sp = space_a and x = 80
      and att = 2 and nts = None]
    unknown_mode_default [where dtype = "''weekly''" and e = env_a and sid = "sp_id space_a"
      and uid = user_a and date = "''2030-01-07''" and st = "''14:00''" and s = t1400
      and en = "''16:00''" and t = t1600 and w = "world_a\<lparr>spaces := [space_n]\<rparr>"
      and sp = space_n and x = 80 and att = 2 and nts = None]
  by (simp add: run_defs example_defs fl_values)

text \<open>
  The claim as written fails: the mode \<open>weekly\<close> is priced at the hourly rate, the
  booking and its payment record are created and the provider is called.
\<close>

theorem unknown_mode_accepted:
  "bookings (fst (create_booking env_a world_a user_a (sp_id space_a) ''2030-01-07''
       ''14:00'' ''16:00'' ''weekly'' 2 None)) = [booking_a\<lparr>duration_type := ''weekly''\<rparr>] \<and>
   payments (fst (create_booking env_a world_a user_a (sp_id space_a) ''2030-01-07''
       ''14:00'' ''16:00'' ''weekly'' 2 None)) = [payment_a] \<and>
   stripe_log (fst (create_booking env_a world_a user_a (sp_id space_a) ''2030-01-07''
       ''14:00'' ''16:00'' ''weekly'' 2 None)) = log_a \<and>
   is_success (snd (create_booking env_a world_a user_a (sp_id space_a) ''2030-01-07''
       ''14:00'' ''16:00'' ''weekly'' 2 None))"
  by (simp add: run_defs example_defs fl_values)

section \<open>Payment link creation\<close>











section \<open>Rejected webhooks\<close>

text \<open>
  C7 (as amended). A webhook whose signature header is missing or empty, whose payload
  does not parse or whose signature does not verify is rejected before any processing:
  the handler raises \<open>HTTPException\<close>, with status 400 when the provider library is
  available and 503 when it is not, the world is as it was, and no other exception
  escapes.
\<close>

theorem stripe_webhook_rejects:
  "\<not> truthy_str sg \<or>
   (\<forall>ev. construct_event e payload (str_of sg) (stripe_webhook_secret e) \<noteq> Verified ev)
   \<Longrightarrow> fst (stripe_webhook e w payload sg) = w \<and>
       (\<exists>detail. snd (stripe_webhook e w payload sg) =
          HTTPException (if stripe_available e then 400 else 503) detail)"
  unfolding stripe_webhook_def
  by (cases "construct_event e payload (str_of sg) (stripe_webhook_secret e)") auto

theorem stripe_webhook_rejects_witness:
  "stripe_webhook env_a world_b ''{}'' (Some ''t=1,v1=zz'') =
     (world_b, HTTPException 400 ''Invalid signature'') \<and>
   stripe_webhook env_a world_b [] (Some ''t=1,v1=aa'') =
     (world_b, HTTPException 400 ''Invalid payload'') \<and>
   stripe_webhook env_a world_b ''{}'' None =
     (world_b, HTTPException 400 ''Missing Stripe signature'') \<and>
   stripe_webhook env_u world_b ''{}'' (Some ''t=1,v1=zz'') =
     (world_b, HTTPException 503 ''Stripe integration not available'')"
  using stripe_webhook_rejects [of "Some ''t=1,v1=zz''" env_a "''{}''" world_b]
    stripe_webhook_rejects [of "Some ''t=1,v1=aa''" env_a "[]" world_b]
    stripe_webhook_rejects [of None env_a "''{}''" world_b]
    stripe_webhook_rejects [of "Some ''t=1,v1=zz''" env_u "''{}''" world_b]
  by (simp add: stripe_webhook_def str_of_def example_defs)

text \<open>
  The claim as written fails: without the provider library a malformed payload gets
  status 503, which is not a client error.
\<close>

theorem malformed_webhook_gets_503:
  "construct_event env_u [] ''t=1,v1=zz'' (stripe_webhook_secret env_u) =
     ValueError ''Expecting value'' \<and>
   stripe_webhook env_u world_b [] (Some ''t=1,v1=zz'') =
     (world_b, HTTPException 503 ''Stripe integration not available'')"
  by (simp add: stripe_webhook_def str_of_def example_defs)

section \<open>Pull-path reconciliation\<close>

lemma first_row_Some: "first_row xs = Some x \<Longrightarrow> x \<in> set xs"
  by (cases xs) (simp_all add: first_row_def)


lemma succeeded_intent_Some:
  "succeeded_intent rs = Some i \<Longrightarrow> i \<in> set rs \<and> pi_status i = ''succeeded''"
  unfolding succeeded_intent_def by (drule first_row_Some) simp


lemma same_tables_log [simp]: "same_tables (log_call c w) w' = same_tables w w'"
  by (simp add: same_tables_def)

lemma same_tables_refl [simp]: "same_tables w w"
  by (simp add: same_tables_def)







section \<open>Acknowledgement of checkout completion\<close>

lemma resolve_booking_id_tables:
  "resolve_booking_id e w obj = (w1, b) \<Longrightarrow>
     bookings w1 = bookings w \<and> payments w1 = payments w \<and> email_tasks w1 = email_tasks w
     \<and> spaces w1 = spaces w"
  unfolding resolve_booking_id_def
  by (auto simp: Let_def split: if_splits provider.splits)

lemma confirm_after_checkout_faults:
  "\<not> lands (db e UpdateBookingStatus) \<Longrightarrow> confirm_after_checkout e w bid pid em = w"
  "db e UpdateBookingStatus \<noteq> DbOk \<Longrightarrow>
     payments (confirm_after_checkout e w bid pid em) = payments w \<and>
     email_tasks (confirm_after_checkout e w bid pid em) = email_tasks w"
  "db e UpdateBookingStatus = DbOk \<Longrightarrow> \<not> lands (db e UpdatePaymentStatus) \<Longrightarrow>
     payments (confirm_after_checkout e w bid pid em) = payments w"
  "db e UpdateBookingStatus = DbOk \<Longrightarrow> db e UpdatePaymentStatus \<noteq> DbOk \<Longrightarrow>
     email_tasks (confirm_after_checkout e w bid pid em) = email_tasks w"
  unfolding confirm_after_checkout_def update_booking_status_def update_payment_status_def
    db_write_def
  by (cases "db e UpdateBookingStatus"; cases "db e UpdatePaymentStatus"; simp)+

text \<open>
  C10. For a verified \<open>checkout.session.completed\<close> event that resolves a booking
  id, the handler returns the body with status "success" and that booking id, whatever
  the outcome of the database calls. When the update of the booking status raises
  without taking effect, the world is the one left by resolving the booking id, whose
  bookings, payment records and confirmation tasks are those before the event. Whenever
  that update raises, no payment record changes and no confirmation is scheduled; when
  only the update of the payment record raises, no confirmation is scheduled, and no
  payment record changes unless the update still took effect.
\<close>

theorem checkout_completed_acknowledged:
  assumes "stripe_available e" "truthy_str sg"
    and "construct_event e payload (str_of sg) (stripe_webhook_secret e) = Verified ev"
    and "ev_type ev = ''checkout.session.completed''"
    and "resolve_booking_id e w (ev_object ev) = (w1, Some bid)" "bid \<noteq> []"
  shows "snd (stripe_webhook e w payload sg) = Return (CheckoutAck (Some bid))
     \<and> body_status (CheckoutAck (Some bid)) = ''success''
     \<and> bookings w1 = bookings w \<and> payments w1 = payments w \<and> email_tasks w1 = email_tasks w
     \<and> (\<not> lands (db e UpdateBookingStatus) \<longrightarrow> fst (stripe_webhook e w payload sg) = w1)
     \<and> (db e UpdateBookingStatus \<noteq> DbOk \<longrightarrow>
          payments (fst (stripe_webhook e w payload sg)) = payments w \<and>
          email_tasks (fst (stripe_webhook e w payload sg)) = email_tasks w)
     \<and> (db e UpdateBookingStatus = DbOk \<and> \<not> lands (db e UpdatePaymentStatus) \<longrightarrow>
          payments (fst (stripe_webhook e w payload sg)) = payments w)
     \<and> (db e UpdateBookingStatus = DbOk \<and> db e UpdatePaymentStatus \<noteq> DbOk \<longrightarrow>
          email_tasks (fst (stripe_webhook e w payload sg)) = email_tasks w)"
proof -
  have run: "stripe_webhook e w payload sg =
     (confirm_after_checkout e w1 bid (payment_intent_ref (ev_object ev))
        (customer_email (ev_object ev)), Return (CheckoutAck (Some bid)))"
    using assms by (simp add: stripe_webhook_def handle_event_def str_of_def Let_def)
  note tabs = resolve_booking_id_tables [OF assms(5)]
  show ?thesis
    unfolding run using tabs
    by (simp add: confirm_after_checkout_faults)
qed

theorem checkout_completed_acknowledged_witness:
  "stripe_webhook env_d world_b ''{}'' (Some ''t=1,v1=bb'') =
     (world_b, Return (CheckoutAck (Some ''b1''))) \<and>
   db env_d UpdateBookingStatus = DbError ''connection refused'' \<and>
   map status (bookings world_b) = [''pending''] \<and>
   body_status (CheckoutAck (Some ''b1'')) = ''success''"
proof -
  have pre: "stripe_available env_d" "truthy_str (Some ''t=1,v1=bb'')"
    "construct_event env_d ''{}'' (str_of (Some ''t=1,v1=bb'')) (stripe_webhook_secret env_d) =
       Verified event_completed"
    "ev_type event_completed = ''checkout.session.completed''"
    "resolve_booking_id env_d world_b (ev_object event_completed) = (world_b, Some ''b1'')"
    "''b1'' \<noteq> []"
    by (simp_all add: resolve_booking_id_def str_of_def Let_def example_defs)
  from checkout_completed_acknowledged [OF pre]
  show ?thesis
    by (cases "stripe_webhook env_d world_b ''{}'' (Some ''t=1,v1=bb'')")
       (simp add: example_defs)
qed

end
